theory Spec2Isabelle
  imports Main
begin

section \<open>The theme controller of theme.js\<close>

text \<open>
  theme.js is one immediately invoked function. It looks up the toggle button and the icon
  inside it, gives up with a console warning when either is missing, and otherwise defines
  \<open>getPreferredTheme\<close>, \<open>setTheme\<close> and \<open>toggleTheme\<close>, applies the preferred theme once,
  registers a click listener and a listener for changes of the system colour scheme, and
  exports \<open>window.themeManager\<close>.

  The embedding passes the page around explicitly. A page holds what the script reads and
  writes: the two DOM elements, the class list of the body, the local storage, the
  system colour scheme, the host's \<open>window.onThemeChange\<close>, what the script has registered
  and exported, and the sequence of effects performed so far, in order.
\<close>

subsection \<open>The page\<close>

datatype target = ThemeToggleButton | ColorSchemeQuery

datatype effect =
    ClassListAdd string
  | ClassListRemove string
  | SetTextContent string
  | StorageSetItem string string
  | CallOnThemeChange "string list"
  | ConsoleWarn string
  | AddEventListener target string
  | ExportThemeManager

text \<open>
  The value of \<open>window.onThemeChange\<close>: not set, set to something that is not callable,
  or set to a function. The function is the host's; the script only calls it, and the
  call is recorded with its argument list. It is taken to return normally and to leave
  the elements, the class list and the storage alone.
\<close>

datatype hostval = Undefined | Object | Function

fun typeof :: "hostval \<Rightarrow> string" where
  "typeof Undefined = ''undefined''"
| "typeof Object = ''object''"
| "typeof Function = ''function''"

datatype error = TypeError

record page =
  toggleElement :: bool
  iconText :: "string option"
  bodyClasses :: "string list"
  localStorage :: "string \<rightharpoonup> string"
  prefersDark :: bool
  onThemeChange :: hostval
  clickListener :: bool
  changeListener :: bool
  themeManager :: bool
  effects :: "effect list"

text \<open>
  \<open>toggleElement\<close> says whether \<open>document.getElementById('themeToggle')\<close> finds an element;
  \<open>iconText\<close> is the text content of the \<open>.theme-icon\<close> element inside it, \<open>None\<close> when the
  button has no such descendant. \<open>prefersDark\<close> is what
  \<open>window.matchMedia('(prefers-color-scheme: dark)').matches\<close> reads.
\<close>

text \<open>The two glyphs, as the bytes of the source file (UTF-8): the sun with its variation
  selector (U+2600 U+FE0F) and the crescent moon (U+1F319).\<close>

definition SUN :: string where
  "SUN = [CHR 0xE2, CHR 0x98, CHR 0x80, CHR 0xEF, CHR 0xB8, CHR 0x8F]"

definition MOON :: string where
  "MOON = [CHR 0xF0, CHR 0x9F, CHR 0x8C, CHR 0x99]"

definition WARNING :: string where
  "WARNING = ''Theme toggle button or icon not found. Make sure to include the required HTML elements.''"

subsection \<open>Results\<close>

text \<open>
  A call either throws (\<open>Inl\<close>) or returns the page it leaves behind (\<open>Inr\<close>). Nothing in
  the script catches, so a throw ends the run; what the page looked like at the throw is
  not kept.
\<close>

fun and_then :: "error + 'a \<Rightarrow> ('a \<Rightarrow> error + 'b) \<Rightarrow> error + 'b" where
  "and_then (Inl e) f = Inl e"
| "and_then (Inr x) f = f x"

subsection \<open>The browser operations the script uses\<close>

definition perform :: "effect \<Rightarrow> page \<Rightarrow> page" where
  "perform e p = p\<lparr>effects := effects p @ [e]\<rparr>"

text \<open>\<open>themeToggle ? themeToggle.querySelector('.theme-icon') : null\<close>\<close>

definition themeIcon :: "page \<Rightarrow> string option" where
  "themeIcon p = (if toggleElement p then iconText p else None)"

text \<open>\<open>document.body.classList\<close>: an ordered set of tokens.\<close>

definition classList_contains :: "string \<Rightarrow> page \<Rightarrow> bool" where
  "classList_contains c p = (c \<in> set (bodyClasses p))"

definition classList_add :: "string \<Rightarrow> page \<Rightarrow> page" where
  "classList_add c p =
     perform (ClassListAdd c)
       (p\<lparr>bodyClasses := (if c \<in> set (bodyClasses p) then bodyClasses p
                           else bodyClasses p @ [c])\<rparr>)"

definition classList_remove :: "string \<Rightarrow> page \<Rightarrow> page" where
  "classList_remove c p =
     perform (ClassListRemove c) (p\<lparr>bodyClasses := removeAll c (bodyClasses p)\<rparr>)"

text \<open>
  \<open>themeIcon.textContent = g\<close>: a TypeError when \<open>themeIcon\<close> is null. The script binds
  \<open>themeIcon\<close> once and defines \<open>setTheme\<close> only behind its guard; no event of the model
  removes an element, so on a loaded page the icon read here is the one that was bound.
\<close>

definition set_textContent :: "string \<Rightarrow> page \<Rightarrow> error + page" where
  "set_textContent g p =
     (case themeIcon p of
        None \<Rightarrow> Inl TypeError
      | Some old \<Rightarrow> Inr (perform (SetTextContent g) (p\<lparr>iconText := Some g\<rparr>)))"

definition getItem :: "string \<Rightarrow> page \<Rightarrow> string option" where
  "getItem k p = localStorage p k"

definition setItem :: "string \<Rightarrow> string \<Rightarrow> page \<Rightarrow> page" where
  "setItem k v p =
     perform (StorageSetItem k v) (p\<lparr>localStorage := (localStorage p)(k \<mapsto> v)\<rparr>)"

text \<open>What \<open>if (x)\<close> makes of the result of \<open>getItem\<close>: null and the empty string are falsy.\<close>

fun truthy :: "string option \<Rightarrow> bool" where
  "truthy None = False"
| "truthy (Some v) = (v \<noteq> [])"

text \<open>\<open>window.onThemeChange(theme)\<close>: a TypeError when the value is not callable.\<close>

definition call_onThemeChange :: "string list \<Rightarrow> page \<Rightarrow> error + page" where
  "call_onThemeChange args p =
     (case onThemeChange p of
        Function \<Rightarrow> Inr (perform (CallOnThemeChange args) p)
      | Undefined \<Rightarrow> Inl TypeError
      | Object \<Rightarrow> Inl TypeError)"

subsection \<open>The functions of the script\<close>

definition getPreferredTheme :: "page \<Rightarrow> string" where
  "getPreferredTheme p =
     (case getItem ''theme'' p of
        Some savedTheme \<Rightarrow>
          if truthy (Some savedTheme) then savedTheme
          else if prefersDark p then ''dark'' else ''light''
      | None \<Rightarrow> if prefersDark p then ''dark'' else ''light'')"

definition setTheme :: "string \<Rightarrow> page \<Rightarrow> error + page" where
  "setTheme theme p =
     and_then
       (if theme = ''dark''
        then set_textContent SUN (classList_add ''dark-mode'' p)
        else set_textContent MOON (classList_remove ''dark-mode'' p))
       (\<lambda>p1. let p2 = setItem ''theme'' theme p1 in
              if typeof (onThemeChange p2) = ''function''
              then call_onThemeChange [theme] p2
              else Inr p2)"

definition toggleTheme :: "page \<Rightarrow> error + page" where
  "toggleTheme p =
     (let currentTheme = (if classList_contains ''dark-mode'' p then ''dark'' else ''light'');
          newTheme = (if currentTheme = ''dark'' then ''light'' else ''dark'')
      in setTheme newTheme p)"

text \<open>The listener for changes of the system colour scheme; \<open>matches\<close> is \<open>e.matches\<close>.\<close>

definition onColorSchemeChange :: "bool \<Rightarrow> page \<Rightarrow> error + page" where
  "onColorSchemeChange matches p =
     (if \<not> truthy (getItem ''theme'' p)
      then setTheme (if matches then ''dark'' else ''light'') p
      else Inr p)"

text \<open>\<open>window.themeManager.getTheme\<close>\<close>

definition getTheme :: "page \<Rightarrow> string" where
  "getTheme p = (if classList_contains ''dark-mode'' p then ''dark'' else ''light'')"

text \<open>
  The body of the script, run once when the page loads. The guard
  \<open>!themeToggle || !themeIcon\<close> is evaluated left to right.
\<close>

definition initialize :: "page \<Rightarrow> error + page" where
  "initialize p =
     (if \<not> toggleElement p then Inr (perform (ConsoleWarn WARNING) p)
      else if themeIcon p = None then Inr (perform (ConsoleWarn WARNING) p)
      else and_then (setTheme (getPreferredTheme p) p)
             (\<lambda>p1. Inr (perform ExportThemeManager
                          (perform (AddEventListener ColorSchemeQuery ''change'')
                             (perform (AddEventListener ThemeToggleButton ''click'')
                                p1))
                        \<lparr>clickListener := True, changeListener := True, themeManager := True\<rparr>)))"

subsection \<open>What can happen to a loaded page\<close>

text \<open>
  A click on the button, a change of the system colour scheme to \<open>matches\<close>, and the
  host calling \<open>themeManager.setTheme\<close> or \<open>themeManager.toggleTheme\<close>. An event reaches the
  script only through a listener it has registered or through the object it has exported.
\<close>

datatype event = Click | ColorSchemeChange bool | CallSetTheme string | CallToggleTheme

fun step :: "event \<Rightarrow> page \<Rightarrow> error + page" where
  "step Click p = (if clickListener p then toggleTheme p else Inr p)"
| "step (ColorSchemeChange matches) p =
     (let p' = p\<lparr>prefersDark := matches\<rparr>
      in if changeListener p' then onColorSchemeChange matches p' else Inr p')"
| "step (CallSetTheme theme) p = (if themeManager p then setTheme theme p else Inr p)"
| "step CallToggleTheme p = (if themeManager p then toggleTheme p else Inr p)"

fun run :: "event list \<Rightarrow> page \<Rightarrow> error + page" where
  "run [] p = Inr p"
| "run (e # es) p = and_then (step e p) (run es)"

text \<open>Loading the page and then letting the events happen.\<close>

definition session :: "event list \<Rightarrow> page \<Rightarrow> error + page" where
  "session es p = and_then (initialize p) (run es)"

text \<open>A page as it is served by the usage note of the script: both elements, the moon in the
  icon, nothing stored, no callback, a system that asks for dark.\<close>

definition fresh_page :: page where
  "fresh_page =
     \<lparr>toggleElement = True, iconText = Some MOON, bodyClasses = [],
      localStorage = Map.empty, prefersDark = True, onThemeChange = Undefined,
      clickListener = False, changeListener = False, themeManager = False,
      effects = []\<rparr>"

subsection \<open>Notions used in the statements\<close>

text \<open>Both required elements are there: what the guard of the script checks.\<close>

definition ready :: "page \<Rightarrow> bool" where
  "ready p = (toggleElement p \<and> iconText p \<noteq> None)"

text \<open>The icon shows the glyph that belongs to the marker class of the body.\<close>

definition in_sync :: "page \<Rightarrow> bool" where
  "in_sync p =
     (iconText p = Some (if classList_contains ''dark-mode'' p then SUN else MOON))"

text \<open>The two values of the specification's Theme enumeration.\<close>

definition isTheme :: "string \<Rightarrow> bool" where
  "isTheme t = (t = ''light'' \<or> t = ''dark'')"

text \<open>An event that does not hand \<open>setTheme\<close> the empty string.\<close>

fun nonempty_call :: "event \<Rightarrow> bool" where
  "nonempty_call (CallSetTheme t) = (t \<noteq> [])"
| "nonempty_call Click = True"
| "nonempty_call (ColorSchemeChange matches) = True"
| "nonempty_call CallToggleTheme = True"

text \<open>The argument lists of the calls of \<open>window.onThemeChange\<close> among some effects.\<close>

fun callbacks :: "effect list \<Rightarrow> string list list" where
  "callbacks [] = []"
| "callbacks (CallOnThemeChange args # es) = args # callbacks es"
| "callbacks (e # es) = callbacks es"

section \<open>Properties\<close>

subsection \<open>What one call of setTheme does\<close>

lemma typeof_function: "(typeof h = ''function'') = (h = Function)"
  by (cases h) simp_all

lemma glyphs_differ: "SUN \<noteq> MOON"
  by (simp add: SUN_def MOON_def)

lemma callbacks_append: "callbacks (xs @ ys) = callbacks xs @ callbacks ys"
  by (induction xs rule: callbacks.induct) simp_all

lemma setTheme_result:
  assumes "toggleElement p" and "iconText p \<noteq> None"
  shows "setTheme t p =
    Inr (p\<lparr>bodyClasses :=
             (if t = ''dark''
              then (if ''dark-mode'' \<in> set (bodyClasses p) then bodyClasses p
                    else bodyClasses p @ [''dark-mode''])
              else removeAll ''dark-mode'' (bodyClasses p)),
           iconText := Some (if t = ''dark'' then SUN else MOON),
           localStorage := (localStorage p)(''theme'' \<mapsto> t),
           effects := effects p @
             [if t = ''dark'' then ClassListAdd ''dark-mode'' else ClassListRemove ''dark-mode'',
              SetTextContent (if t = ''dark'' then SUN else MOON),
              StorageSetItem ''theme'' t] @
             (if onThemeChange p = Function then [CallOnThemeChange [t]] else [])\<rparr>)"
proof -
  obtain g where g: "iconText p = Some g"
    using assms(2) by blast
  show ?thesis
    using assms(1) g
    by (simp add: setTheme_def set_textContent_def themeIcon_def classList_add_def
        classList_remove_def perform_def setItem_def call_onThemeChange_def
        typeof_function Let_def)
qed

lemma setTheme_throws:
  assumes "\<not> toggleElement p \<or> iconText p = None"
  shows "setTheme t p = Inl TypeError"
  using assms
  by (auto simp: setTheme_def set_textContent_def themeIcon_def classList_add_def
      classList_remove_def perform_def)

lemma setTheme_returns:
  assumes "setTheme t p = Inr p'"
  shows "ready p"
proof (rule ccontr)
  assume "\<not> ready p"
  then have "setTheme t p = Inl TypeError"
    by (intro setTheme_throws) (simp add: ready_def)
  with assms show False by simp
qed

text \<open>The fields of the page after a call that returned, one by one.\<close>

lemma setTheme_fields:
  assumes "ready p"
  obtains p' where "setTheme t p = Inr p'"
    and "bodyClasses p' =
           (if t = ''dark''
            then (if ''dark-mode'' \<in> set (bodyClasses p) then bodyClasses p
                  else bodyClasses p @ [''dark-mode''])
            else removeAll ''dark-mode'' (bodyClasses p))"
    and "iconText p' = Some (if t = ''dark'' then SUN else MOON)"
    and "localStorage p' = (localStorage p)(''theme'' \<mapsto> t)"
    and "effects p' = effects p @
           [if t = ''dark'' then ClassListAdd ''dark-mode'' else ClassListRemove ''dark-mode'',
            SetTextContent (if t = ''dark'' then SUN else MOON),
            StorageSetItem ''theme'' t] @
           (if onThemeChange p = Function then [CallOnThemeChange [t]] else [])"
    and "toggleElement p' = toggleElement p" and "prefersDark p' = prefersDark p"
    and "onThemeChange p' = onThemeChange p" and "clickListener p' = clickListener p"
    and "changeListener p' = changeListener p" and "themeManager p' = themeManager p"
proof -
  from assms have "toggleElement p" and "iconText p \<noteq> None"
    by (simp_all add: ready_def)
  note r = setTheme_result [OF this, of t]
  show thesis
    by (rule that [OF r]) simp_all
qed

text \<open>
  Claim C2. For a Theme \<open>t\<close>, on a page that has both elements, \<open>setTheme t\<close> returns and has
  performed, in this order and nothing else: the class \<open>dark-mode\<close> added to the body for
  dark and removed for light, the icon set to the sun for dark and to the moon for light,
  \<open>theme\<close> stored as \<open>t\<close>, and \<open>window.onThemeChange\<close> called with \<open>t\<close> when it is a function.
  Afterwards the body carries the marker exactly when \<open>t\<close> is dark, \<open>getTheme\<close> reads \<open>t\<close>, and
  the stored value is \<open>t\<close>.
\<close>

theorem setTheme_effects_in_order:
  assumes "isTheme t" and "ready p"
  shows "\<exists>p'. setTheme t p = Inr p' \<and>
    effects p' = effects p @
      [if t = ''dark'' then ClassListAdd ''dark-mode'' else ClassListRemove ''dark-mode'',
       SetTextContent (if t = ''dark'' then SUN else MOON),
       StorageSetItem ''theme'' t] @
      (if typeof (onThemeChange p) = ''function'' then [CallOnThemeChange [t]] else []) \<and>
    classList_contains ''dark-mode'' p' = (t = ''dark'') \<and>
    iconText p' = Some (if t = ''dark'' then SUN else MOON) \<and>
    getItem ''theme'' p' = Some t \<and>
    getTheme p' = t"
proof -
  from \<open>ready p\<close> obtain p' where r: "setTheme t p = Inr p'"
    and c: "bodyClasses p' =
           (if t = ''dark''
            then (if ''dark-mode'' \<in> set (bodyClasses p) then bodyClasses p
                  else bodyClasses p @ [''dark-mode''])
            else removeAll ''dark-mode'' (bodyClasses p))"
    and i: "iconText p' = Some (if t = ''dark'' then SUN else MOON)"
    and s: "localStorage p' = (localStorage p)(''theme'' \<mapsto> t)"
    and e: "effects p' = effects p @
           [if t = ''dark'' then ClassListAdd ''dark-mode'' else ClassListRemove ''dark-mode'',
            SetTextContent (if t = ''dark'' then SUN else MOON),
            StorageSetItem ''theme'' t] @
           (if onThemeChange p = Function then [CallOnThemeChange [t]] else [])"
    by (rule setTheme_fields)
  have marker: "classList_contains ''dark-mode'' p' = (t = ''dark'')"
    using c by (simp add: classList_contains_def)
  have shown: "getTheme p' = t"
    using marker \<open>isTheme t\<close> by (auto simp: getTheme_def isTheme_def)
  have stored: "getItem ''theme'' p' = Some t"
    using s by (simp add: getItem_def)
  from r e marker i stored shown show ?thesis
    by (simp add: typeof_function)
qed

theorem setTheme_effects_in_order_witness:
  "isTheme ''dark'' \<and> ready fresh_page \<and>
   (\<exists>p'. setTheme ''dark'' fresh_page = Inr p' \<and>
      effects p' =
        [ClassListAdd ''dark-mode'', SetTextContent SUN, StorageSetItem ''theme'' ''dark''] \<and>
      classList_contains ''dark-mode'' p' \<and>
      iconText p' = Some SUN \<and>
      getItem ''theme'' p' = Some ''dark'' \<and>
      getTheme p' = ''dark'')"
proof -
  have a: "isTheme ''dark''"
    by (simp add: isTheme_def)
  have b: "ready fresh_page"
    by (simp add: ready_def fresh_page_def)
  from setTheme_effects_in_order [OF a b] a b show ?thesis
    by (simp add: fresh_page_def)
qed

text \<open>
  Claim C7. Calling \<open>setTheme t\<close> a second time changes neither the class list of the body,
  nor the icon, nor the storage.
\<close>

theorem setTheme_twice:
  assumes "ready p"
  shows "\<exists>p1 p2. setTheme t p = Inr p1 \<and> setTheme t p1 = Inr p2 \<and>
    bodyClasses p2 = bodyClasses p1 \<and>
    iconText p2 = iconText p1 \<and>
    localStorage p2 = localStorage p1"
proof -
  from assms obtain p1 where r1: "setTheme t p = Inr p1"
    and c1: "bodyClasses p1 =
           (if t = ''dark''
            then (if ''dark-mode'' \<in> set (bodyClasses p) then bodyClasses p
                  else bodyClasses p @ [''dark-mode''])
            else removeAll ''dark-mode'' (bodyClasses p))"
    and i1: "iconText p1 = Some (if t = ''dark'' then SUN else MOON)"
    and s1: "localStorage p1 = (localStorage p)(''theme'' \<mapsto> t)"
    and e1: "toggleElement p1 = toggleElement p"
    by (rule setTheme_fields)
  from assms i1 e1 have "ready p1"
    by (simp add: ready_def)
  then obtain p2 where r2: "setTheme t p1 = Inr p2"
    and c2: "bodyClasses p2 =
           (if t = ''dark''
            then (if ''dark-mode'' \<in> set (bodyClasses p1) then bodyClasses p1
                  else bodyClasses p1 @ [''dark-mode''])
            else removeAll ''dark-mode'' (bodyClasses p1))"
    and i2: "iconText p2 = Some (if t = ''dark'' then SUN else MOON)"
    and s2: "localStorage p2 = (localStorage p1)(''theme'' \<mapsto> t)"
    by (rule setTheme_fields)
  have "bodyClasses p2 = bodyClasses p1"
    using c1 c2 by simp
  moreover have "iconText p2 = iconText p1"
    using i1 i2 by simp
  moreover have "localStorage p2 = localStorage p1"
    using s1 s2 by simp
  ultimately show ?thesis
    using r1 r2 by blast
qed

theorem setTheme_twice_witness:
  "ready fresh_page \<and>
   (\<exists>p1 p2. setTheme ''light'' fresh_page = Inr p1 \<and> setTheme ''light'' p1 = Inr p2 \<and>
      bodyClasses p2 = bodyClasses p1 \<and>
      iconText p2 = iconText p1 \<and>
      localStorage p2 = localStorage p1)"
proof -
  have "ready fresh_page"
    by (simp add: ready_def fresh_page_def)
  then show ?thesis
    using setTheme_twice [of fresh_page "''light''"] by blast
qed

text \<open>
  Claim C9. On a page that has both elements, a call \<open>setTheme t\<close> returns; when
  \<open>window.onThemeChange\<close> is a function the call has invoked it once, with \<open>t\<close> as its only
  argument, and when it is undefined the call has not invoked it and has not thrown.
\<close>

theorem setTheme_callback:
  assumes "ready p"
  shows "\<exists>p'. setTheme t p = Inr p' \<and>
    callbacks (effects p') = callbacks (effects p) @
      (if typeof (onThemeChange p) = ''function'' then [[t]] else [])"
proof -
  from assms obtain p' where r: "setTheme t p = Inr p'"
    and e: "effects p' = effects p @
           [if t = ''dark'' then ClassListAdd ''dark-mode'' else ClassListRemove ''dark-mode'',
            SetTextContent (if t = ''dark'' then SUN else MOON),
            StorageSetItem ''theme'' t] @
           (if onThemeChange p = Function then [CallOnThemeChange [t]] else [])"
    by (rule setTheme_fields)
  have "callbacks (effects p') = callbacks (effects p) @
      (if typeof (onThemeChange p) = ''function'' then [[t]] else [])"
    unfolding e by (simp add: callbacks_append typeof_function)
  with r show ?thesis
    by blast
qed

theorem setTheme_callback_witness:
  "ready (fresh_page\<lparr>onThemeChange := Function\<rparr>) \<and>
   (\<exists>p'. setTheme ''light'' (fresh_page\<lparr>onThemeChange := Function\<rparr>) = Inr p' \<and>
      callbacks (effects p') = [[''light'']]) \<and>
   ready fresh_page \<and>
   (\<exists>p'. setTheme ''light'' fresh_page = Inr p' \<and> callbacks (effects p') = [])"
proof -
  have a: "ready (fresh_page\<lparr>onThemeChange := Function\<rparr>)"
    by (simp add: ready_def fresh_page_def)
  have b: "ready fresh_page"
    by (simp add: ready_def fresh_page_def)
  from setTheme_callback [OF a, of "''light''"]
  have c: "\<exists>p'. setTheme ''light'' (fresh_page\<lparr>onThemeChange := Function\<rparr>) = Inr p' \<and>
      callbacks (effects p') = [[''light'']]"
    by (simp add: fresh_page_def)
  from setTheme_callback [OF b, of "''light''"]
  have d: "\<exists>p'. setTheme ''light'' fresh_page = Inr p' \<and> callbacks (effects p') = []"
    by (simp add: fresh_page_def)
  from a b c d show ?thesis
    by blast
qed

subsection \<open>Reading the preferred theme\<close>

text \<open>
  Claim C3, as the script has it. The result of \<open>getPreferredTheme\<close> is the stored string
  whenever that string is there and not empty, whatever it is; otherwise it is dark when
  the system asks for dark and light when it does not. It is a Theme when the stored entry
  is missing, empty or a Theme. The function only reads: its result is a string, it
  returns no page.
\<close>

theorem getPreferredTheme_stored_or_system:
  "(getItem ''theme'' p = Some v \<and> v \<noteq> [] \<longrightarrow> getPreferredTheme p = v) \<and>
   (getItem ''theme'' p = None \<or> getItem ''theme'' p = Some [] \<longrightarrow>
      getPreferredTheme p = (if prefersDark p then ''dark'' else ''light'')) \<and>
   (getItem ''theme'' p = None \<or> getItem ''theme'' p = Some [] \<or>
    getItem ''theme'' p = Some ''light'' \<or> getItem ''theme'' p = Some ''dark'' \<longrightarrow>
      isTheme (getPreferredTheme p))"
  by (auto simp: getPreferredTheme_def isTheme_def)

theorem getPreferredTheme_stored_or_system_witness:
  "getItem ''theme'' (fresh_page\<lparr>localStorage := [''theme'' \<mapsto> ''light'']\<rparr>) = Some ''light'' \<and>
   ''light'' \<noteq> [] \<and>
   getPreferredTheme (fresh_page\<lparr>localStorage := [''theme'' \<mapsto> ''light'']\<rparr>) = ''light'' \<and>
   getItem ''theme'' fresh_page = None \<and>
   getPreferredTheme fresh_page = ''dark'' \<and>
   isTheme (getPreferredTheme fresh_page)"
proof -
  have a: "getItem ''theme'' (fresh_page\<lparr>localStorage := [''theme'' \<mapsto> ''light'']\<rparr>) = Some ''light''"
    by (simp add: getItem_def)
  have b: "getItem ''theme'' fresh_page = None"
    by (simp add: getItem_def fresh_page_def)
  have c: "prefersDark fresh_page"
    by (simp add: fresh_page_def)
  from getPreferredTheme_stored_or_system
         [of "fresh_page\<lparr>localStorage := [''theme'' \<mapsto> ''light'']\<rparr>" "''light''"] a
  have d: "getPreferredTheme (fresh_page\<lparr>localStorage := [''theme'' \<mapsto> ''light'']\<rparr>) = ''light''"
    by simp
  from getPreferredTheme_stored_or_system [of fresh_page] b c
  have e: "getPreferredTheme fresh_page = ''dark''"
    by simp
  from getPreferredTheme_stored_or_system [of fresh_page] b
  have f: "isTheme (getPreferredTheme fresh_page)"
    by blast
  have n: "''light'' \<noteq> []"
    by simp
  from a n d b e f show ?thesis
    by blast
qed

text \<open>
  The claim as it was written fails: a stored string that is not a Theme comes back as it
  is. Such a string gets into the storage through the exported \<open>setTheme\<close>, for one.
\<close>

theorem getPreferredTheme_not_a_theme:
  "map_sum id getPreferredTheme (session [CallSetTheme ''auto''] fresh_page) = Inr ''auto'' \<and>
   \<not> isTheme ''auto''"
  by (simp add: session_def initialize_def themeIcon_def fresh_page_def
      getPreferredTheme_def getItem_def setTheme_def set_textContent_def classList_add_def
      classList_remove_def setItem_def perform_def isTheme_def)

subsection \<open>Strings that are not themes\<close>

text \<open>
  Claim C10, as the script has it. On a page that has both elements, \<open>setTheme t\<close> returns
  for every string \<open>t\<close> and stores exactly \<open>t\<close>. For every \<open>t\<close> but \<open>dark\<close> the body loses the
  marker, the icon shows the moon and \<open>getTheme\<close> reads \<open>light\<close>. A later
  \<open>getPreferredTheme\<close> returns \<open>t\<close> as it is when \<open>t\<close> is not empty; the empty string is
  stored too, but reads as no preference, and the result then follows the system.
\<close>

theorem setTheme_any_string:
  assumes "ready p"
  shows "\<exists>p'. setTheme t p = Inr p' \<and>
    getItem ''theme'' p' = Some t \<and>
    (t \<noteq> ''dark'' \<longrightarrow>
       \<not> classList_contains ''dark-mode'' p' \<and> iconText p' = Some MOON \<and>
       getTheme p' = ''light'') \<and>
    (t \<noteq> [] \<longrightarrow> getPreferredTheme p' = t) \<and>
    (t = [] \<longrightarrow> getPreferredTheme p' = (if prefersDark p then ''dark'' else ''light''))"
proof -
  from assms obtain p' where r: "setTheme t p = Inr p'"
    and c: "bodyClasses p' =
           (if t = ''dark''
            then (if ''dark-mode'' \<in> set (bodyClasses p) then bodyClasses p
                  else bodyClasses p @ [''dark-mode''])
            else removeAll ''dark-mode'' (bodyClasses p))"
    and i: "iconText p' = Some (if t = ''dark'' then SUN else MOON)"
    and s: "localStorage p' = (localStorage p)(''theme'' \<mapsto> t)"
    and d: "prefersDark p' = prefersDark p"
    by (rule setTheme_fields [where t = t]) blast
  have stored: "getItem ''theme'' p' = Some t"
    using s by (simp add: getItem_def)
  have light: "t \<noteq> ''dark'' \<longrightarrow>
       \<not> classList_contains ''dark-mode'' p' \<and> iconText p' = Some MOON \<and>
       getTheme p' = ''light''"
    using c i by (simp add: classList_contains_def getTheme_def)
  have kept: "t \<noteq> [] \<longrightarrow> getPreferredTheme p' = t"
    using stored by (simp add: getPreferredTheme_def)
  have empty: "t = [] \<longrightarrow> getPreferredTheme p' = (if prefersDark p then ''dark'' else ''light'')"
    using stored d by (simp add: getPreferredTheme_def)
  from r stored light kept empty show ?thesis
    by blast
qed

theorem setTheme_any_string_witness:
  "ready fresh_page \<and>
   (\<exists>p'. setTheme ''auto'' fresh_page = Inr p' \<and>
      getItem ''theme'' p' = Some ''auto'' \<and>
      \<not> classList_contains ''dark-mode'' p' \<and> iconText p' = Some MOON \<and>
      getTheme p' = ''light'' \<and>
      getPreferredTheme p' = ''auto'') \<and>
   (\<exists>p'. setTheme [] fresh_page = Inr p' \<and>
      getItem ''theme'' p' = Some [] \<and>
      getPreferredTheme p' = ''dark'')"
proof -
  have a: "ready fresh_page"
    by (simp add: ready_def fresh_page_def)
  from setTheme_any_string [OF a, of "''auto''"]
  have b: "\<exists>p'. setTheme ''auto'' fresh_page = Inr p' \<and>
      getItem ''theme'' p' = Some ''auto'' \<and>
      \<not> classList_contains ''dark-mode'' p' \<and> iconText p' = Some MOON \<and>
      getTheme p' = ''light'' \<and>
      getPreferredTheme p' = ''auto''"
    by simp
  have "prefersDark fresh_page"
    by (simp add: fresh_page_def)
  with setTheme_any_string [OF a, of "[]"]
  have c: "\<exists>p'. setTheme [] fresh_page = Inr p' \<and>
      getItem ''theme'' p' = Some [] \<and>
      getPreferredTheme p' = ''dark''"
    by auto
  from a b c show ?thesis
    by blast
qed

text \<open>
  The claim as it was written fails at the empty string: it is stored, and the next
  \<open>getPreferredTheme\<close> answers with the theme of the system instead.
\<close>

theorem setTheme_empty_string_not_returned:
  "map_sum id (getItem ''theme'') (setTheme [] fresh_page) = Inr (Some []) \<and>
   map_sum id getPreferredTheme (setTheme [] fresh_page) = Inr ''dark''"
  by (simp add: fresh_page_def getPreferredTheme_def getItem_def setTheme_def
      set_textContent_def themeIcon_def classList_add_def classList_remove_def setItem_def
      perform_def)

subsection \<open>Loading the page\<close>

text \<open>
  Claim C8. When the toggle button or the icon inside it is missing, the script returns
  without throwing, and the page it leaves is the page it found with one more effect, the
  console warning: the class list, the storage, the icon, the listeners and the exported
  object are as they were.
\<close>

theorem initialize_without_elements:
  assumes "\<not> toggleElement p \<or> iconText p = None"
  shows "initialize p = Inr (p\<lparr>effects := effects p @ [ConsoleWarn WARNING]\<rparr>)"
  using assms by (auto simp: initialize_def themeIcon_def perform_def)

theorem initialize_without_elements_witness:
  "iconText (fresh_page\<lparr>iconText := None\<rparr>) = None \<and>
   initialize (fresh_page\<lparr>iconText := None\<rparr>) =
     Inr \<lparr>toggleElement = True, iconText = None, bodyClasses = [],
          localStorage = Map.empty, prefersDark = True, onThemeChange = Undefined,
          clickListener = False, changeListener = False, themeManager = False,
          effects = [ConsoleWarn WARNING]\<rparr> \<and>
   \<not> toggleElement (fresh_page\<lparr>toggleElement := False\<rparr>) \<and>
   initialize (fresh_page\<lparr>toggleElement := False\<rparr>) =
     Inr \<lparr>toggleElement = False, iconText = Some MOON, bodyClasses = [],
          localStorage = Map.empty, prefersDark = True, onThemeChange = Undefined,
          clickListener = False, changeListener = False, themeManager = False,
          effects = [ConsoleWarn WARNING]\<rparr>"
proof -
  have a: "iconText (fresh_page\<lparr>iconText := None\<rparr>) = None"
    by simp
  then have "\<not> toggleElement (fresh_page\<lparr>iconText := None\<rparr>) \<or>
      iconText (fresh_page\<lparr>iconText := None\<rparr>) = None"
    by (rule disjI2)
  from initialize_without_elements [OF this]
  have b: "initialize (fresh_page\<lparr>iconText := None\<rparr>) =
     Inr \<lparr>toggleElement = True, iconText = None, bodyClasses = [],
          localStorage = Map.empty, prefersDark = True, onThemeChange = Undefined,
          clickListener = False, changeListener = False, themeManager = False,
          effects = [ConsoleWarn WARNING]\<rparr>"
    by (simp add: fresh_page_def)
  have c: "\<not> toggleElement (fresh_page\<lparr>toggleElement := False\<rparr>)"
    by simp
  then have "\<not> toggleElement (fresh_page\<lparr>toggleElement := False\<rparr>) \<or>
      iconText (fresh_page\<lparr>toggleElement := False\<rparr>) = None"
    by (rule disjI1)
  from initialize_without_elements [OF this]
  have d: "initialize (fresh_page\<lparr>toggleElement := False\<rparr>) =
     Inr \<lparr>toggleElement = False, iconText = Some MOON, bodyClasses = [],
          localStorage = Map.empty, prefersDark = True, onThemeChange = Undefined,
          clickListener = False, changeListener = False, themeManager = False,
          effects = [ConsoleWarn WARNING]\<rparr>"
    by (simp add: fresh_page_def)
  from a b c d show ?thesis
    by blast
qed

lemma initialize_result:
  assumes "ready p"
  shows "\<exists>p1. setTheme (getPreferredTheme p) p = Inr p1 \<and>
    initialize p =
      Inr (p1\<lparr>clickListener := True, changeListener := True, themeManager := True,
              effects := effects p1 @
                [AddEventListener ThemeToggleButton ''click'',
                 AddEventListener ColorSchemeQuery ''change'', ExportThemeManager]\<rparr>)"
proof -
  from assms obtain p1 where r: "setTheme (getPreferredTheme p) p = Inr p1"
    by (rule setTheme_fields [where t = "getPreferredTheme p"]) blast
  from assms have "toggleElement p" and "themeIcon p \<noteq> None"
    by (simp_all add: ready_def themeIcon_def)
  then have "initialize p =
      Inr (p1\<lparr>clickListener := True, changeListener := True, themeManager := True,
              effects := effects p1 @
                [AddEventListener ThemeToggleButton ''click'',
                 AddEventListener ColorSchemeQuery ''change'', ExportThemeManager]\<rparr>)"
    by (auto simp: initialize_def r perform_def)
  with r show ?thesis
    by blast
qed

text \<open>Whatever was stored before, loading a page that has both elements stores the theme
  it applies.\<close>

lemma initialize_stores:
  assumes "ready p"
  shows "\<exists>p'. initialize p = Inr p' \<and> getItem ''theme'' p' = Some (getPreferredTheme p)"
proof -
  from assms obtain p1 where r: "setTheme (getPreferredTheme p) p = Inr p1"
    and s: "localStorage p1 = (localStorage p)(''theme'' \<mapsto> getPreferredTheme p)"
    by (rule setTheme_fields [where t = "getPreferredTheme p"]) blast
  from initialize_result [OF assms] r s show ?thesis
    by (auto simp: getItem_def)
qed

text \<open>
  Claim C1, evaluated. On a page with both elements, nothing stored and a system that asks
  for dark, loading the page alone, before any click and any call from the host, leaves
  \<open>dark\<close> stored under \<open>theme\<close>: the stored entry is written by the initialization.
\<close>

theorem initialize_creates_stored_theme:
  "getItem ''theme'' fresh_page = None \<and>
   map_sum id (getItem ''theme'') (session [] fresh_page) = Inr (Some ''dark'') \<and>
   map_sum id effects (session [] fresh_page) =
     Inr [ClassListAdd ''dark-mode'', SetTextContent SUN, StorageSetItem ''theme'' ''dark'',
          AddEventListener ThemeToggleButton ''click'',
          AddEventListener ColorSchemeQuery ''change'', ExportThemeManager]"
  by (simp add: session_def initialize_def themeIcon_def fresh_page_def
      getPreferredTheme_def getItem_def setTheme_def set_textContent_def classList_add_def
      setItem_def perform_def)

text \<open>
  Claim C5, evaluated. On the same page, loading yields dark. When the system then changes
  to light, the listener finds the entry that the initialization stored and does nothing:
  the body keeps the marker, the icon keeps the sun, \<open>getTheme\<close> still reads \<open>dark\<close>, and
  no effect is added to those of the initialization.
\<close>

theorem system_change_after_load_is_ignored:
  "getItem ''theme'' fresh_page = None \<and> prefersDark fresh_page \<and>
   map_sum id getTheme (session [] fresh_page) = Inr ''dark'' \<and>
   map_sum id getTheme (session [ColorSchemeChange False] fresh_page) = Inr ''dark'' \<and>
   map_sum id iconText (session [ColorSchemeChange False] fresh_page) = Inr (Some SUN) \<and>
   map_sum id (getItem ''theme'') (session [ColorSchemeChange False] fresh_page) =
     Inr (Some ''dark'') \<and>
   map_sum id effects (session [ColorSchemeChange False] fresh_page) =
     map_sum id effects (session [] fresh_page)"
  by (simp add: session_def initialize_def themeIcon_def fresh_page_def
      getPreferredTheme_def getItem_def setTheme_def set_textContent_def classList_add_def
      setItem_def perform_def onColorSchemeChange_def getTheme_def classList_contains_def)

subsection \<open>What every loaded page satisfies\<close>

lemma run_append: "run (xs @ ys) p = and_then (run xs p) (run ys)"
proof (induction xs arbitrary: p)
  case Nil
  show ?case by simp
next
  case (Cons e xs)
  show ?case
  proof (cases "step e p")
    case (Inl err)
    then show ?thesis by simp
  next
    case (Inr q)
    with Cons.IH [of q] show ?thesis by simp
  qed
qed

lemma setTheme_keeps:
  assumes "ready p"
  shows "\<exists>p'. setTheme t p = Inr p' \<and> ready p' \<and> in_sync p'"
proof -
  from assms obtain p' where r: "setTheme t p = Inr p'"
    and c: "bodyClasses p' =
           (if t = ''dark''
            then (if ''dark-mode'' \<in> set (bodyClasses p) then bodyClasses p
                  else bodyClasses p @ [''dark-mode''])
            else removeAll ''dark-mode'' (bodyClasses p))"
    and i: "iconText p' = Some (if t = ''dark'' then SUN else MOON)"
    and s: "localStorage p' = (localStorage p)(''theme'' \<mapsto> t)"
    and e: "effects p' = effects p @
           [if t = ''dark'' then ClassListAdd ''dark-mode'' else ClassListRemove ''dark-mode'',
            SetTextContent (if t = ''dark'' then SUN else MOON),
            StorageSetItem ''theme'' t] @
           (if onThemeChange p = Function then [CallOnThemeChange [t]] else [])"
    and g: "toggleElement p' = toggleElement p"
    by (rule setTheme_fields)
  from assms g i have "ready p'"
    by (simp add: ready_def)
  moreover from c i have "in_sync p'"
    by (simp add: in_sync_def classList_contains_def)
  ultimately show ?thesis
    using r by blast
qed

lemma toggleTheme_keeps:
  assumes "ready p"
  shows "\<exists>p'. toggleTheme p = Inr p' \<and> ready p' \<and> in_sync p'"
  using setTheme_keeps [OF assms] by (simp add: toggleTheme_def)

lemma onColorSchemeChange_keeps:
  assumes "ready p" and "in_sync p"
  shows "\<exists>p'. onColorSchemeChange b p = Inr p' \<and> ready p' \<and> in_sync p'"
  using setTheme_keeps [OF assms(1)] assms by (simp add: onColorSchemeChange_def)

lemma step_keeps:
  assumes "ready p" and "in_sync p"
  shows "\<exists>p'. step e p = Inr p' \<and> ready p' \<and> in_sync p'"
proof (cases e)
  case Click
  with toggleTheme_keeps [OF assms(1)] assms show ?thesis
    by simp
next
  case (ColorSchemeChange b)
  from assms have "ready (p\<lparr>prefersDark := b\<rparr>)" and "in_sync (p\<lparr>prefersDark := b\<rparr>)"
    by (simp_all add: ready_def in_sync_def classList_contains_def)
  from onColorSchemeChange_keeps [OF this, of b] this ColorSchemeChange show ?thesis
    by (auto simp: Let_def)
next
  case (CallSetTheme t)
  with setTheme_keeps [OF assms(1), of t] assms show ?thesis
    by simp
next
  case CallToggleTheme
  with toggleTheme_keeps [OF assms(1)] assms show ?thesis
    by simp
qed

lemma run_keeps:
  assumes "ready p" and "in_sync p"
  shows "\<exists>p'. run es p = Inr p' \<and> ready p' \<and> in_sync p'"
  using assms
proof (induction es arbitrary: p)
  case Nil
  then show ?case by simp
next
  case (Cons e es)
  from step_keeps [OF Cons.prems, of e]
  obtain q where q: "step e p = Inr q" "ready q" "in_sync q"
    by blast
  from Cons.IH [OF q(2,3)] q(1) show ?case
    by simp
qed

lemma initialize_keeps:
  assumes "ready p"
  shows "\<exists>p'. initialize p = Inr p' \<and> ready p' \<and> in_sync p' \<and>
    clickListener p' \<and> changeListener p' \<and> themeManager p'"
proof -
  from setTheme_keeps [OF assms, of "getPreferredTheme p"]
  obtain p1 where p1: "setTheme (getPreferredTheme p) p = Inr p1" "ready p1" "in_sync p1"
    by blast
  from initialize_result [OF assms] p1 show ?thesis
    by (auto simp: ready_def in_sync_def classList_contains_def)
qed

lemma session_keeps:
  assumes "ready p"
  shows "\<exists>p'. session es p = Inr p' \<and> ready p' \<and> in_sync p'"
proof -
  from initialize_keeps [OF assms]
  obtain q where q: "initialize p = Inr q" "ready q" "in_sync q"
    by blast
  from run_keeps [OF q(2,3), of es] q(1) show ?thesis
    by (simp add: session_def)
qed

subsection \<open>Toggling\<close>

lemma toggleTheme_flips:
  assumes "ready s"
  shows "\<exists>s1. toggleTheme s = Inr s1 \<and> ready s1 \<and>
    classList_contains ''dark-mode'' s1 = (\<not> classList_contains ''dark-mode'' s) \<and>
    iconText s1 = Some (if classList_contains ''dark-mode'' s then MOON else SUN) \<and>
    getItem ''theme'' s1 = Some (if classList_contains ''dark-mode'' s then ''light'' else ''dark'')"
proof -
  let ?t = "if classList_contains ''dark-mode'' s then ''light'' else ''dark''"
  have t: "toggleTheme s = setTheme ?t s"
    by (simp add: toggleTheme_def)
  from assms obtain s1 where r: "setTheme ?t s = Inr s1"
    and c: "bodyClasses s1 =
           (if ?t = ''dark''
            then (if ''dark-mode'' \<in> set (bodyClasses s) then bodyClasses s
                  else bodyClasses s @ [''dark-mode''])
            else removeAll ''dark-mode'' (bodyClasses s))"
    and i: "iconText s1 = Some (if ?t = ''dark'' then SUN else MOON)"
    and l: "localStorage s1 = (localStorage s)(''theme'' \<mapsto> ?t)"
    and g: "toggleElement s1 = toggleElement s"
    by (rule setTheme_fields [where t = ?t]) blast
  have marker: "classList_contains ''dark-mode'' s1 = (\<not> classList_contains ''dark-mode'' s)"
    using c by (simp add: classList_contains_def)
  have icon: "iconText s1 = Some (if classList_contains ''dark-mode'' s then MOON else SUN)"
    using i by simp
  have stored: "getItem ''theme'' s1 =
      Some (if classList_contains ''dark-mode'' s then ''light'' else ''dark'')"
    using l by (simp add: getItem_def)
  from assms g i have "ready s1"
    by (simp add: ready_def)
  with t r marker icon stored show ?thesis
    by simp
qed

lemma toggleTheme_twice:
  assumes "ready s" and "in_sync s"
  shows "\<exists>s1 s2. toggleTheme s = Inr s1 \<and> toggleTheme s1 = Inr s2 \<and>
    classList_contains ''dark-mode'' s1 = (\<not> classList_contains ''dark-mode'' s) \<and>
    iconText s1 = Some (if classList_contains ''dark-mode'' s then MOON else SUN) \<and>
    iconText s1 \<noteq> iconText s \<and>
    getTheme s1 = (if getTheme s = ''dark'' then ''light'' else ''dark'') \<and>
    getItem ''theme'' s1 = Some (getTheme s1) \<and>
    classList_contains ''dark-mode'' s2 = classList_contains ''dark-mode'' s \<and>
    iconText s2 = iconText s \<and>
    getTheme s2 = getTheme s \<and>
    getItem ''theme'' s2 = Some (getTheme s)"
proof -
  from toggleTheme_flips [OF assms(1)]
  obtain s1 where r1: "toggleTheme s = Inr s1" and ready1: "ready s1"
    and m1: "classList_contains ''dark-mode'' s1 = (\<not> classList_contains ''dark-mode'' s)"
    and i1: "iconText s1 = Some (if classList_contains ''dark-mode'' s then MOON else SUN)"
    and l1: "getItem ''theme'' s1 =
      Some (if classList_contains ''dark-mode'' s then ''light'' else ''dark'')"
    by blast
  from toggleTheme_flips [OF ready1]
  obtain s2 where r2: "toggleTheme s1 = Inr s2"
    and m2: "classList_contains ''dark-mode'' s2 = (\<not> classList_contains ''dark-mode'' s1)"
    and i2: "iconText s2 = Some (if classList_contains ''dark-mode'' s1 then MOON else SUN)"
    and l2: "getItem ''theme'' s2 =
      Some (if classList_contains ''dark-mode'' s1 then ''light'' else ''dark'')"
    by blast
  have changed: "iconText s1 \<noteq> iconText s"
    using i1 assms(2) glyphs_differ by (auto simp: in_sync_def)
  have read1: "getTheme s1 = (if getTheme s = ''dark'' then ''light'' else ''dark'')"
    using m1 by (simp add: getTheme_def)
  have stored1: "getItem ''theme'' s1 = Some (getTheme s1)"
    using l1 m1 by (simp add: getTheme_def)
  have marker: "classList_contains ''dark-mode'' s2 = classList_contains ''dark-mode'' s"
    using m1 m2 by simp
  have icon: "iconText s2 = iconText s"
    using i2 m1 assms(2) by (simp add: in_sync_def)
  have read2: "getTheme s2 = getTheme s"
    using marker by (simp add: getTheme_def)
  have stored2: "getItem ''theme'' s2 = Some (getTheme s)"
    using l2 m1 by (simp add: getTheme_def)
  from r1 r2 m1 i1 changed read1 stored1 marker icon read2 stored2 show ?thesis
    by blast
qed

text \<open>
  Claim C6. In every state a loaded page can be in, whatever has happened since it was
  loaded, two calls of \<open>toggleTheme\<close> in a row return. The first applies the complement of
  what the marker says: the marker class of the body is flipped, the icon shows the glyph
  of the complement and so differs from the one before, \<open>getTheme\<close> reads the complement
  and the complement is stored. The second flips back: marker and icon are as they were
  before the first, and \<open>getTheme\<close> and the stored value are the theme read at the start.
\<close>

theorem toggleTheme_involution:
  assumes "ready p"
  shows "\<exists>s s1 s2. session es p = Inr s \<and>
    toggleTheme s = Inr s1 \<and> toggleTheme s1 = Inr s2 \<and>
    classList_contains ''dark-mode'' s1 = (\<not> classList_contains ''dark-mode'' s) \<and>
    iconText s1 = Some (if classList_contains ''dark-mode'' s then MOON else SUN) \<and>
    iconText s1 \<noteq> iconText s \<and>
    getTheme s1 = (if getTheme s = ''dark'' then ''light'' else ''dark'') \<and>
    getItem ''theme'' s1 = Some (getTheme s1) \<and>
    classList_contains ''dark-mode'' s2 = classList_contains ''dark-mode'' s \<and>
    iconText s2 = iconText s \<and>
    getTheme s2 = getTheme s \<and>
    getItem ''theme'' s2 = Some (getTheme s)"
proof -
  from session_keeps [OF assms, of es]
  obtain s where s: "session es p = Inr s" "ready s" "in_sync s"
    by blast
  from toggleTheme_twice [OF s(2,3)] s(1) show ?thesis
    by blast
qed

theorem toggleTheme_involution_witness:
  "ready fresh_page \<and>
   (\<exists>s s1 s2. session [CallSetTheme ''auto'', Click] fresh_page = Inr s \<and>
      toggleTheme s = Inr s1 \<and> toggleTheme s1 = Inr s2 \<and>
      classList_contains ''dark-mode'' s1 = (\<not> classList_contains ''dark-mode'' s) \<and>
      iconText s1 = Some (if classList_contains ''dark-mode'' s then MOON else SUN) \<and>
      iconText s1 \<noteq> iconText s \<and>
      getTheme s1 = (if getTheme s = ''dark'' then ''light'' else ''dark'') \<and>
      getItem ''theme'' s1 = Some (getTheme s1) \<and>
      classList_contains ''dark-mode'' s2 = classList_contains ''dark-mode'' s \<and>
      iconText s2 = iconText s \<and>
      getTheme s2 = getTheme s \<and>
      getItem ''theme'' s2 = Some (getTheme s))"
proof -
  have "ready fresh_page"
    by (simp add: ready_def fresh_page_def)
  then show ?thesis
    using toggleTheme_involution [of fresh_page "[CallSetTheme ''auto'', Click]"] by blast
qed

subsection \<open>The stored theme and changes of the system\<close>

lemma setTheme_stores:
  assumes "setTheme t p = Inr p'"
  shows "getItem ''theme'' p' = Some t"
proof -
  from assms have "ready p"
    by (rule setTheme_returns)
  then obtain q where q: "setTheme t p = Inr q"
    and s: "localStorage q = (localStorage p)(''theme'' \<mapsto> t)"
    by (rule setTheme_fields [where t = t]) blast
  from q assms have "q = p'"
    by simp
  with s show ?thesis
    by (simp add: getItem_def)
qed

lemma setTheme_clickListener:
  assumes "setTheme t p = Inr p'"
  shows "clickListener p' = clickListener p"
proof -
  from assms have "ready p"
    by (rule setTheme_returns)
  then obtain q where q: "setTheme t p = Inr q"
    and l: "clickListener q = clickListener p"
    by (rule setTheme_fields [where t = t]) blast
  from q assms have "q = p'"
    by simp
  with l show ?thesis
    by simp
qed

lemma step_clickListener:
  assumes "step e p = Inr p'"
  shows "clickListener p' = clickListener p"
proof (cases e)
  case Click
  with assms show ?thesis
    by (auto simp: toggleTheme_def dest: setTheme_clickListener split: if_splits)
next
  case (ColorSchemeChange b)
  with assms show ?thesis
    by (auto simp: onColorSchemeChange_def Let_def dest: setTheme_clickListener
        split: if_splits)
next
  case (CallSetTheme t)
  with assms show ?thesis
    by (auto dest: setTheme_clickListener split: if_splits)
next
  case CallToggleTheme
  with assms show ?thesis
    by (auto simp: toggleTheme_def dest: setTheme_clickListener split: if_splits)
qed

lemma run_clickListener:
  assumes "run es p = Inr p'"
  shows "clickListener p' = clickListener p"
  using assms
proof (induction es arbitrary: p)
  case Nil
  then show ?case by simp
next
  case (Cons e es)
  show ?case
  proof (cases "step e p")
    case (Inl err)
    with Cons.prems show ?thesis by simp
  next
    case (Inr q)
    with Cons.prems have "run es q = Inr p'"
      by simp
    then have "clickListener p' = clickListener q"
      by (rule Cons.IH)
    with step_clickListener [OF Inr] show ?thesis
      by simp
  qed
qed

lemma toggleTheme_stores:
  assumes "toggleTheme p = Inr p'"
  shows "truthy (getItem ''theme'' p')"
proof -
  let ?t = "if classList_contains ''dark-mode'' p then ''light'' else ''dark''"
  from assms have "setTheme ?t p = Inr p'"
    by (auto simp: toggleTheme_def split: if_splits)
  then have "getItem ''theme'' p' = Some ?t"
    by (rule setTheme_stores)
  then show ?thesis
    by simp
qed

lemma onColorSchemeChange_stored:
  assumes "truthy (getItem ''theme'' p)"
  shows "onColorSchemeChange b p = Inr p"
  using assms by (simp add: onColorSchemeChange_def)

lemma step_ColorSchemeChange_stored:
  assumes "truthy (getItem ''theme'' p)"
  shows "step (ColorSchemeChange b) p = Inr (p\<lparr>prefersDark := b\<rparr>)"
proof -
  from assms have "truthy (getItem ''theme'' (p\<lparr>prefersDark := b\<rparr>))"
    by (simp add: getItem_def)
  then have "onColorSchemeChange b (p\<lparr>prefersDark := b\<rparr>) = Inr (p\<lparr>prefersDark := b\<rparr>)"
    by (rule onColorSchemeChange_stored)
  then show ?thesis
    by (simp add: Let_def)
qed

lemma step_keeps_stored:
  assumes "truthy (getItem ''theme'' p)" and "nonempty_call e" and "step e p = Inr p'"
  shows "truthy (getItem ''theme'' p')"
proof (cases e)
  case Click
  show ?thesis
  proof (cases "clickListener p")
    case True
    with Click assms(3) have "toggleTheme p = Inr p'" by simp
    then show ?thesis by (rule toggleTheme_stores)
  next
    case False
    with Click assms(1,3) show ?thesis by simp
  qed
next
  case (ColorSchemeChange b)
  with assms(3) step_ColorSchemeChange_stored [OF assms(1), of b]
  have "p' = p\<lparr>prefersDark := b\<rparr>"
    by simp
  with assms(1) show ?thesis
    by (simp add: getItem_def)
next
  case (CallSetTheme t)
  show ?thesis
  proof (cases "themeManager p")
    case True
    with CallSetTheme assms(3) have "setTheme t p = Inr p'" by simp
    then have "getItem ''theme'' p' = Some t" by (rule setTheme_stores)
    moreover from CallSetTheme assms(2) have "t \<noteq> []" by simp
    ultimately show ?thesis by simp
  next
    case False
    with CallSetTheme assms(1,3) show ?thesis by simp
  qed
next
  case CallToggleTheme
  show ?thesis
  proof (cases "themeManager p")
    case True
    with CallToggleTheme assms(3) have "toggleTheme p = Inr p'" by simp
    then show ?thesis by (rule toggleTheme_stores)
  next
    case False
    with CallToggleTheme assms(1,3) show ?thesis by simp
  qed
qed

lemma run_keeps_stored:
  assumes "truthy (getItem ''theme'' p)" and "list_all nonempty_call es"
    and "run es p = Inr p'"
  shows "truthy (getItem ''theme'' p')"
  using assms
proof (induction es arbitrary: p)
  case Nil
  then show ?case by simp
next
  case (Cons e es)
  show ?case
  proof (cases "step e p")
    case (Inl err)
    with Cons.prems(3) show ?thesis by simp
  next
    case (Inr q)
    from Cons.prems(2) have e: "nonempty_call e" and es: "list_all nonempty_call es"
      by simp_all
    from Cons.prems(1) e Inr have "truthy (getItem ''theme'' q)"
      by (rule step_keeps_stored)
    moreover from Cons.prems(3) Inr have "run es q = Inr p'"
      by simp
    ultimately show ?thesis
      using es Cons.IH by blast
  qed
qed

text \<open>
  Claim C4, as the script has it. Load a page that has both elements, let anything
  happen, then let the user click the toggle, and after that let the user click, the
  system change and the host call \<open>toggleTheme\<close> or \<open>setTheme\<close> with any string but the
  empty one, in any order. In the state this leads to, a change of the system colour
  scheme changes nothing but the system colour scheme itself: marker, icon, storage and
  effects stay. The listener, on any page, returns the page as it is when the stored
  entry is a string that is not empty, and calls \<open>setTheme\<close> with the theme of the system
  when the entry is missing or is the empty string.
\<close>

theorem manual_choice_overrides_system:
  assumes "ready p" and "list_all nonempty_call es"
  shows "(\<exists>s. session (before @ [Click] @ es) p = Inr s \<and>
            step (ColorSchemeChange b) s = Inr (s\<lparr>prefersDark := b\<rparr>)) \<and>
         (getItem ''theme'' q = Some v \<and> v \<noteq> [] \<longrightarrow> onColorSchemeChange b q = Inr q) \<and>
         (getItem ''theme'' q = None \<or> getItem ''theme'' q = Some [] \<longrightarrow>
            onColorSchemeChange b q = setTheme (if b then ''dark'' else ''light'') q)"
proof -
  from initialize_keeps [OF assms(1)]
  obtain s0 where s0: "initialize p = Inr s0" "ready s0" "in_sync s0" "clickListener s0"
    by blast
  from run_keeps [OF s0(2,3), of before]
  obtain s1 where s1: "run before s0 = Inr s1" "ready s1" "in_sync s1"
    by blast
  from step_keeps [OF s1(2,3), of Click]
  obtain s2 where s2: "step Click s1 = Inr s2" "ready s2" "in_sync s2"
    by blast
  from run_keeps [OF s2(2,3), of es]
  obtain s where s: "run es s2 = Inr s"
    by blast
  from run_clickListener [OF s1(1)] s0(4) have "clickListener s1"
    by simp
  with s2(1) have "toggleTheme s1 = Inr s2"
    by simp
  then have "truthy (getItem ''theme'' s2)"
    by (rule toggleTheme_stores)
  from this assms(2) s(1) have "truthy (getItem ''theme'' s)"
    by (rule run_keeps_stored)
  then have quiet: "step (ColorSchemeChange b) s = Inr (s\<lparr>prefersDark := b\<rparr>)"
    by (rule step_ColorSchemeChange_stored)
  have "session (before @ [Click] @ es) p = Inr s"
    using s0(1) s1(1) s2(1) s(1) by (simp add: session_def run_append)
  with quiet have first: "\<exists>s. session (before @ [Click] @ es) p = Inr s \<and>
            step (ColorSchemeChange b) s = Inr (s\<lparr>prefersDark := b\<rparr>)"
    by blast
  have second: "getItem ''theme'' q = Some v \<and> v \<noteq> [] \<longrightarrow> onColorSchemeChange b q = Inr q"
    by (simp add: onColorSchemeChange_def)
  have third: "getItem ''theme'' q = None \<or> getItem ''theme'' q = Some [] \<longrightarrow>
      onColorSchemeChange b q = setTheme (if b then ''dark'' else ''light'') q"
    by (auto simp: onColorSchemeChange_def)
  from first second third show ?thesis
    by blast
qed

theorem manual_choice_overrides_system_witness:
  "ready fresh_page \<and>
   list_all nonempty_call [ColorSchemeChange False, CallSetTheme ''auto'', Click] \<and>
   (\<exists>s. session ([CallSetTheme []] @ [Click] @
                  [ColorSchemeChange False, CallSetTheme ''auto'', Click]) fresh_page = Inr s \<and>
        step (ColorSchemeChange True) s = Inr (s\<lparr>prefersDark := True\<rparr>)) \<and>
   getItem ''theme'' (fresh_page\<lparr>localStorage := [''theme'' \<mapsto> ''auto'']\<rparr>) = Some ''auto'' \<and>
   ''auto'' \<noteq> [] \<and>
   onColorSchemeChange True (fresh_page\<lparr>localStorage := [''theme'' \<mapsto> ''auto'']\<rparr>) =
     Inr (fresh_page\<lparr>localStorage := [''theme'' \<mapsto> ''auto'']\<rparr>) \<and>
   getItem ''theme'' fresh_page = None \<and>
   onColorSchemeChange False fresh_page = setTheme ''light'' fresh_page \<and>
   getItem ''theme'' (fresh_page\<lparr>localStorage := [''theme'' \<mapsto> []]\<rparr>) = Some [] \<and>
   onColorSchemeChange False (fresh_page\<lparr>localStorage := [''theme'' \<mapsto> []]\<rparr>) =
     setTheme ''light'' (fresh_page\<lparr>localStorage := [''theme'' \<mapsto> []]\<rparr>)"
proof -
  let ?q = "fresh_page\<lparr>localStorage := [''theme'' \<mapsto> ''auto'']\<rparr>"
  let ?e = "fresh_page\<lparr>localStorage := [''theme'' \<mapsto> []]\<rparr>"
  have a: "ready fresh_page"
    by (simp add: ready_def fresh_page_def)
  have b: "list_all nonempty_call [ColorSchemeChange False, CallSetTheme ''auto'', Click]"
    by simp
  have c: "getItem ''theme'' ?q = Some ''auto''"
    by (simp add: getItem_def)
  have d: "''auto'' \<noteq> []"
    by simp
  note m = manual_choice_overrides_system
    [OF a b, of "[CallSetTheme []]" True ?q "''auto''"]
  from m have e: "\<exists>s. session ([CallSetTheme []] @ [Click] @
                  [ColorSchemeChange False, CallSetTheme ''auto'', Click]) fresh_page = Inr s \<and>
        step (ColorSchemeChange True) s = Inr (s\<lparr>prefersDark := True\<rparr>)"
    by blast
  from m c d have f: "onColorSchemeChange True ?q = Inr ?q"
    by blast
  have g: "getItem ''theme'' fresh_page = None"
    by (simp add: getItem_def fresh_page_def)
  from manual_choice_overrides_system [OF a b, of _ False fresh_page] g
  have h: "onColorSchemeChange False fresh_page = setTheme ''light'' fresh_page"
    by simp
  have i: "getItem ''theme'' ?e = Some []"
    by (simp add: getItem_def)
  from manual_choice_overrides_system [OF a b, of _ False ?e] i
  have j: "onColorSchemeChange False ?e = setTheme ''light'' ?e"
    by simp
  from a b e c d f g h i j show ?thesis
    by blast
qed

text \<open>
  The claim as it was written fails once the empty string has been stored. On a light
  system: load, click (dark is applied and stored), then the host calls
  \<open>themeManager.setTheme('')\<close>, which shows light and stores the empty string. The entry
  is there, yet when the system changes to dark the listener applies dark: the page that
  showed light with the moon shows dark with the sun.
\<close>

theorem empty_string_reopens_system_changes:
  "map_sum id (getItem ''theme'')
     (session [Click] (fresh_page\<lparr>prefersDark := False\<rparr>)) = Inr (Some ''dark'') \<and>
   map_sum id (getItem ''theme'')
     (session [Click, CallSetTheme []] (fresh_page\<lparr>prefersDark := False\<rparr>)) = Inr (Some []) \<and>
   map_sum id getTheme
     (session [Click, CallSetTheme []] (fresh_page\<lparr>prefersDark := False\<rparr>)) = Inr ''light'' \<and>
   map_sum id iconText
     (session [Click, CallSetTheme []] (fresh_page\<lparr>prefersDark := False\<rparr>)) = Inr (Some MOON) \<and>
   map_sum id getTheme
     (session [Click, CallSetTheme [], ColorSchemeChange True]
        (fresh_page\<lparr>prefersDark := False\<rparr>)) = Inr ''dark'' \<and>
   map_sum id iconText
     (session [Click, CallSetTheme [], ColorSchemeChange True]
        (fresh_page\<lparr>prefersDark := False\<rparr>)) = Inr (Some SUN)"
  by (simp add: session_def initialize_def themeIcon_def fresh_page_def
      getPreferredTheme_def getItem_def setTheme_def toggleTheme_def set_textContent_def
      classList_add_def classList_remove_def classList_contains_def setItem_def perform_def
      onColorSchemeChange_def getTheme_def Let_def)

text \<open>
  The entry that the initialization stores is never empty, so on every page that has both
  elements the listener ignores a change of the system that comes right after loading.
\<close>

lemma getPreferredTheme_not_empty: "getPreferredTheme p \<noteq> []"
  by (simp add: getPreferredTheme_def split: option.splits)

lemma system_change_after_load:
  assumes "ready p"
  shows "\<exists>s. initialize p = Inr s \<and>
    step (ColorSchemeChange b) s = Inr (s\<lparr>prefersDark := b\<rparr>)"
proof -
  from initialize_stores [OF assms]
  obtain s where s: "initialize p = Inr s"
    and t: "getItem ''theme'' s = Some (getPreferredTheme p)"
    by blast
  from t have "truthy (getItem ''theme'' (s\<lparr>prefersDark := b\<rparr>))"
    by (simp add: getItem_def getPreferredTheme_not_empty)
  then have "step (ColorSchemeChange b) s = Inr (s\<lparr>prefersDark := b\<rparr>)"
    by (simp add: onColorSchemeChange_def Let_def)
  with s show ?thesis
    by blast
qed

end
